theory Spec2Isabelle
  imports Main
begin

section \<open>Data model of the renderer (src/5.8.testhdr.py)\<close>

text \<open>
  The development follows the latest revision of the engine, \<^verbatim>\<open>5.8.testhdr.py\<close>:
  \<^verbatim>\<open>TileSet\<close>, \<^verbatim>\<open>TileMap\<close>, \<^verbatim>\<open>Sprite\<close>, \<^verbatim>\<open>SNESRenderer\<close> and the
  per-frame callback \<^verbatim>\<open>update_game_state\<close>. Python integers are \<open>int\<close>; every
  exception the modelled code can raise is a value of \<open>error\<close>, returned as \<open>Inl\<close>.
\<close>

datatype error = ValueError | IndexError | ZeroDivisionError | PygameError

subsection \<open>Surfaces\<close>

text \<open>
  A \<^verbatim>\<open>pygame.Surface\<close> is kept as its size and its rows of RGBA pixels.
  \<^verbatim>\<open>pygame.Surface((w, h), SRCALPHA)\<close> refuses a negative size; the new surface is
  zero-filled. \<^verbatim>\<open>fill\<close> overwrites every pixel. \<^verbatim>\<open>convert_alpha\<close> changes the
  pixel format only, so it is the identity on this representation.
\<close>

type_synonym rgba = "int \<times> int \<times> int \<times> int"

record Surface =
  surf_size :: "int \<times> int"
  pixels :: "rgba list list"

definition get_size :: "Surface \<Rightarrow> int \<times> int" where
  "get_size s = surf_size s"

definition get_width :: "Surface \<Rightarrow> int" where
  "get_width s = fst (surf_size s)"

definition get_height :: "Surface \<Rightarrow> int" where
  "get_height s = snd (surf_size s)"



definition convert_alpha :: "Surface \<Rightarrow> Surface" where
  "convert_alpha s = s"

text \<open>
  \<^verbatim>\<open>surface.subsurface((x, y, w, h))\<close>: the window of the parent's pixels under the
  rectangle; pygame raises \<^verbatim>\<open>ValueError\<close> when the rectangle is not inside the parent.
\<close>

definition rect_inside :: "int \<times> int \<times> int \<times> int \<Rightarrow> Surface \<Rightarrow> bool" where
  "rect_inside r s =
     (case r of (x, y, w, h) \<Rightarrow>
        0 \<le> x \<and> 0 \<le> y \<and> 0 \<le> w \<and> 0 \<le> h \<and> x + w \<le> get_width s \<and> y + h \<le> get_height s)"

definition crop :: "Surface \<Rightarrow> int \<times> int \<times> int \<times> int \<Rightarrow> Surface" where
  "crop s r =
     (case r of (x, y, w, h) \<Rightarrow>
        \<lparr>surf_size = (w, h),
         pixels = map (\<lambda>row. take (nat w) (drop (nat x) row))
                      (take (nat h) (drop (nat y) (pixels s)))\<rparr>)"

definition subsurface :: "Surface \<Rightarrow> int \<times> int \<times> int \<times> int \<Rightarrow> error + Surface" where
  "subsurface s r = (if rect_inside r s then Inr (crop s r) else Inl ValueError)"

subsection \<open>TileSet\<close>

record TileSet =
  tiles :: "Surface list"
  tile_size_px :: int

text \<open>
  The two nested \<^verbatim>\<open>for\<close> loops of \<^verbatim>\<open>TileSet.__init__\<close> append one tile per
  \<open>(ty_idx, tx_idx)\<close>; \<open>slice_tiles\<close> runs them over the two index ranges and stops at the
  first exception. \<^verbatim>\<open>range(n)\<close> is \<open>[0..n - 1]\<close>.
\<close>

fun slice_row :: "Surface \<Rightarrow> int \<Rightarrow> int \<Rightarrow> int list \<Rightarrow> Surface list \<Rightarrow> error + Surface list" where
  "slice_row surface tile_size ty_idx [] acc = Inr acc"
| "slice_row surface tile_size ty_idx (tx_idx # rest) acc =
     (let tx = tx_idx * tile_size;
          ty = ty_idx * tile_size
      in case subsurface surface (tx, ty, tile_size, tile_size) of
           Inl e \<Rightarrow> Inl e
         | Inr sub \<Rightarrow> slice_row surface tile_size ty_idx rest (acc @ [convert_alpha sub]))"

fun slice_tiles :: "Surface \<Rightarrow> int \<Rightarrow> int list \<Rightarrow> int list \<Rightarrow> Surface list \<Rightarrow> error + Surface list" where
  "slice_tiles surface tile_size [] txs acc = Inr acc"
| "slice_tiles surface tile_size (ty_idx # rest) txs acc =
     (case slice_row surface tile_size ty_idx txs acc of
        Inl e \<Rightarrow> Inl e
      | Inr acc' \<Rightarrow> slice_tiles surface tile_size rest txs acc')"

definition TileSet_init :: "Surface \<Rightarrow> int \<Rightarrow> error + TileSet" where
  "TileSet_init surface tile_size =
     (let (w, h) = get_size surface in
      if tile_size = 0 then Inl ZeroDivisionError
      else
        let num_tiles_x = w div tile_size;
            num_tiles_y = h div tile_size
        in case slice_tiles surface tile_size [0..num_tiles_y - 1] [0..num_tiles_x - 1] [] of
             Inl e \<Rightarrow> Inl e
           | Inr ts \<Rightarrow> Inr \<lparr>tiles = ts, tile_size_px = tile_size\<rparr>)"


subsection \<open>TileMap\<close>

record TileMap =
  width :: int
  height :: int
  map_data :: "int list list"
  priority :: int
  tileset :: TileSet

text \<open>\<^verbatim>\<open>[[0] * width for _ in range(height)]\<close>: a non-positive factor gives the empty list.\<close>

definition TileMap_init :: "int \<Rightarrow> int \<Rightarrow> TileSet \<Rightarrow> int \<Rightarrow> TileMap" where
  "TileMap_init w h ts p =
     \<lparr>width = w, height = h,
      map_data = replicate (nat h) (replicate (nat w) 0),
      priority = p, tileset = ts\<rparr>"

text \<open>
  What \<^verbatim>\<open>set_tile\<close> writes to \<^verbatim>\<open>sys.stderr\<close>: the warning line, carrying the two
  coordinates the f-string formats.
\<close>

datatype stderr_line = Warning_out_of_map_bounds int int

text \<open>
  \<^verbatim>\<open>self.map_data[y][x] = index\<close> under the guard \<open>0 \<le> y\<close>, \<open>0 \<le> x\<close>: the list
  indexing raises \<^verbatim>\<open>IndexError\<close> when the nested list is shorter than the declared
  size. The result is the updated map and the lines printed to stderr.
\<close>

definition set_tile :: "TileMap \<Rightarrow> int \<Rightarrow> int \<Rightarrow> int \<Rightarrow> error + (TileMap \<times> stderr_line list)" where
  "set_tile tm x y index =
     (if 0 \<le> y \<and> y < height tm \<and> 0 \<le> x \<and> x < width tm then
        (if nat y < length (map_data tm) \<and> nat x < length (map_data tm ! nat y) then
           Inr (tm\<lparr>map_data := (map_data tm)[nat y := (map_data tm ! nat y)[nat x := index]]\<rparr>, [])
         else Inl IndexError)
      else Inr (tm, [Warning_out_of_map_bounds x y]))"

definition get_tile_index :: "TileMap \<Rightarrow> int \<Rightarrow> int \<Rightarrow> error + int" where
  "get_tile_index tm x y =
     (if 0 \<le> y \<and> y < height tm \<and> 0 \<le> x \<and> x < width tm then
        (if nat y < length (map_data tm) \<and> nat x < length (map_data tm ! nat y) then
           Inr (map_data tm ! nat y ! nat x)
         else Inl IndexError)
      else Inr (- 1))"

text \<open>
  The shape \<^verbatim>\<open>TileMap.__init__\<close> establishes and \<^verbatim>\<open>set_tile\<close> keeps: \<open>height\<close> rows
  of \<open>width\<close> cells each.
\<close>

definition rectangular :: "TileMap \<Rightarrow> bool" where
  "rectangular tm =
     (length (map_data tm) = nat (height tm) \<and>
      list_all (\<lambda>row. length row = nat (width tm)) (map_data tm))"

subsection \<open>Sprite and Rect\<close>

record Sprite =
  sprite_surface :: Surface
  sprite_x :: int
  sprite_y :: int
  sprite_width :: int
  sprite_height :: int
  sprite_priority :: int

definition Sprite_init :: "Surface \<Rightarrow> int \<Rightarrow> int \<Rightarrow> int \<Rightarrow> Sprite" where
  "Sprite_init surface x y p =
     \<lparr>sprite_surface = convert_alpha surface, sprite_x = x, sprite_y = y,
      sprite_width = get_width surface, sprite_height = get_height surface,
      sprite_priority = p\<rparr>"

text \<open>\<^verbatim>\<open>pygame.Rect(x, y, w, h)\<close> with the four edge attributes the callback reads.\<close>

record Rect =
  rect_x :: int
  rect_y :: int
  rect_w :: int
  rect_h :: int

definition new_Rect :: "int \<Rightarrow> int \<Rightarrow> int \<Rightarrow> int \<Rightarrow> Rect" where
  "new_Rect x y w h = \<lparr>rect_x = x, rect_y = y, rect_w = w, rect_h = h\<rparr>"

definition left :: "Rect \<Rightarrow> int" where
  "left r = rect_x r"

definition top :: "Rect \<Rightarrow> int" where
  "top r = rect_y r"

definition right :: "Rect \<Rightarrow> int" where
  "right r = rect_x r + rect_w r"

definition bottom :: "Rect \<Rightarrow> int" where
  "bottom r = rect_y r + rect_h r"

definition get_rect :: "Sprite \<Rightarrow> Rect" where
  "get_rect s = new_Rect (sprite_x s) (sprite_y s) (sprite_width s) (sprite_height s)"

subsection \<open>SNESRenderer and its layer list\<close>

text \<open>
  \<^verbatim>\<open>add_layer\<close> accepts any Python object. The objects of this program are tile maps
  and sprites; any other object is kept as its attribute table (names with integer
  values), which is all that \<^verbatim>\<open>hasattr\<close> and \<^verbatim>\<open>getattr\<close> look at. A \<^verbatim>\<open>TileMap\<close> and a
  \<^verbatim>\<open>Sprite\<close> have their slots (all assigned by \<^verbatim>\<open>__init__\<close>) and their methods.
\<close>

datatype pyobject =
    TileMapObj TileMap
  | SpriteObj Sprite
  | OtherObj "(string \<times> int) list"

fun hasattr :: "pyobject \<Rightarrow> string \<Rightarrow> bool" where
  "hasattr (TileMapObj tm) name =
     (name \<in> set [''width'', ''height'', ''map_data'', ''priority'', ''tileset'',
                  ''set_tile'', ''get_tile_index'', ''draw''])"
| "hasattr (SpriteObj s) name =
     (name \<in> set [''surface'', ''x'', ''y'', ''width'', ''height'', ''priority'',
                  ''draw'', ''get_rect''])"
| "hasattr (OtherObj attrs) name = (name \<in> set (map fst attrs))"

text \<open>\<^verbatim>\<open>getattr(l, "priority", d)\<close>, the sort key of \<^verbatim>\<open>add_layer\<close>.\<close>

fun getattr_priority :: "pyobject \<Rightarrow> int \<Rightarrow> int" where
  "getattr_priority (TileMapObj tm) d = priority tm"
| "getattr_priority (SpriteObj s) d = sprite_priority s"
| "getattr_priority (OtherObj attrs) d =
     (case map_of attrs ''priority'' of Some v \<Rightarrow> v | None \<Rightarrow> d)"

record SNESRenderer =
  scale :: int
  logical_size :: "int \<times> int"
  layers :: "pyobject list"

definition SNESRenderer_init :: "int \<Rightarrow> int \<Rightarrow> int \<Rightarrow> SNESRenderer" where
  "SNESRenderer_init window_scale logical_width logical_height =
     \<lparr>scale = window_scale, logical_size = (logical_width, logical_height), layers = []\<rparr>"

text \<open>
  \<^verbatim>\<open>list.sort(key=...)\<close> is a stable sort; \<open>sort_key\<close> is the stable insertion sort of
  the list library, and a stable sort has only one possible result.
\<close>

definition add_layer :: "SNESRenderer \<Rightarrow> pyobject \<Rightarrow> error + SNESRenderer" where
  "add_layer r layer =
     (if \<not> hasattr layer ''draw'' \<or> \<not> hasattr layer ''priority'' then Inl ValueError
      else Inr (r\<lparr>layers := sort_key (\<lambda>l. getattr_priority l 0) (layers r @ [layer])\<rparr>))"

text \<open>
  A caller registering objects one after the other; a call that raises leaves the
  renderer as it was, and the caller goes on with the next object.
\<close>

fun add_layers :: "SNESRenderer \<Rightarrow> pyobject list \<Rightarrow> SNESRenderer" where
  "add_layers r [] = r"
| "add_layers r (l # ls) =
     (case add_layer r l of Inl e \<Rightarrow> add_layers r ls | Inr r' \<Rightarrow> add_layers r' ls)"

subsection \<open>The per-frame update: input, collision, clamping\<close>

definition TILE_SIZE :: int where
  "TILE_SIZE = 16"

definition PLAYER_SIZE :: int where
  "PLAYER_SIZE = TILE_SIZE - 8"

definition MOVE_SPEED :: int where
  "MOVE_SPEED = 2"

definition TILE_FLOOR :: int where
  "TILE_FLOOR = 0"

definition TILE_WALL :: int where
  "TILE_WALL = 1"

datatype key = K_LEFT | K_RIGHT | K_UP | K_DOWN

text \<open>The four arrow-key tests on \<^verbatim>\<open>pygame.key.get_pressed()\<close>.\<close>

definition apply_keys :: "(key \<Rightarrow> bool) \<Rightarrow> Sprite \<Rightarrow> Sprite" where
  "apply_keys keys s =
     (let s1 = (if keys K_LEFT then s\<lparr>sprite_x := sprite_x s - MOVE_SPEED\<rparr> else s);
          s2 = (if keys K_RIGHT then s1\<lparr>sprite_x := sprite_x s1 + MOVE_SPEED\<rparr> else s1);
          s3 = (if keys K_UP then s2\<lparr>sprite_y := sprite_y s2 - MOVE_SPEED\<rparr> else s2);
          s4 = (if keys K_DOWN then s3\<lparr>sprite_y := sprite_y s3 + MOVE_SPEED\<rparr> else s3)
      in s4)"

text \<open>The corner list written out three times in the callback.\<close>

definition corners :: "Rect \<Rightarrow> (int \<times> int) list" where
  "corners r =
     [(left r, top r), (right r - 1, top r), (left r, bottom r - 1), (right r - 1, bottom r - 1)]"

text \<open>
  The first corner loop: the bounds test, then the tile lookup, leaving the loop at the
  first corner that collides.
\<close>

fun check_corners :: "TileMap \<Rightarrow> (int \<times> int) list \<Rightarrow> error + bool" where
  "check_corners tilemap [] = Inr False"
| "check_corners tilemap ((px, py) # rest) =
     (let tile_x = px div TILE_SIZE;
          tile_y = py div TILE_SIZE
      in if 0 \<le> tile_x \<and> tile_x < width tilemap \<and> 0 \<le> tile_y \<and> tile_y < height tilemap then
           (case get_tile_index tilemap tile_x tile_y of
              Inl e \<Rightarrow> Inl e
            | Inr tile_type \<Rightarrow>
                if tile_type = TILE_WALL then Inr True else check_corners tilemap rest)
         else Inr True)"

text \<open>
  The loops of the two per-axis tests: \<^verbatim>\<open>not (in bounds) or get_tile_index(...) == TILE_WALL\<close>,
  the lookup evaluated only when the bounds test passed.
\<close>

fun check_corners_axis :: "TileMap \<Rightarrow> (int \<times> int) list \<Rightarrow> error + bool" where
  "check_corners_axis tilemap [] = Inr False"
| "check_corners_axis tilemap ((px_c, py_c) # rest) =
     (let tx = px_c div TILE_SIZE;
          ty = py_c div TILE_SIZE
      in if \<not> (0 \<le> tx \<and> tx < width tilemap \<and> 0 \<le> ty \<and> ty < height tilemap) then Inr True
         else
           (case get_tile_index tilemap tx ty of
              Inl e \<Rightarrow> Inl e
            | Inr t \<Rightarrow> if t = TILE_WALL then Inr True else check_corners_axis tilemap rest))"

text \<open>
  The body of \<^verbatim>\<open>if collided:\<close>. Both coordinates are put back first; the two per-axis
  rectangles are then built from the sprite's current (already restored) coordinates.
\<close>

definition revert_axes :: "TileMap \<Rightarrow> int \<Rightarrow> int \<Rightarrow> Sprite \<Rightarrow> error + Sprite" where
  "revert_axes tilemap prev_x prev_y s =
     (let s1 = s\<lparr>sprite_x := prev_x\<rparr>;
          s2 = s1\<lparr>sprite_y := prev_y\<rparr>;
          player_rect_x_moved = new_Rect (sprite_x s2) prev_y (sprite_width s2) (sprite_height s2)
      in case check_corners_axis tilemap (corners player_rect_x_moved) of
           Inl e \<Rightarrow> Inl e
         | Inr collided_x \<Rightarrow>
             let s3 = (if collided_x then s2\<lparr>sprite_x := prev_x\<rparr> else s2);
                 player_rect_y_moved =
                   new_Rect prev_x (sprite_y s3) (sprite_width s3) (sprite_height s3)
             in case check_corners_axis tilemap (corners player_rect_y_moved) of
                  Inl e \<Rightarrow> Inl e
                | Inr collided_y \<Rightarrow>
                    Inr (if collided_y then s3\<lparr>sprite_y := prev_y\<rparr> else s3))"

text \<open>Collision detection and response for the sprite already moved by the keys.\<close>

definition resolve_collision :: "TileMap \<Rightarrow> int \<Rightarrow> int \<Rightarrow> Sprite \<Rightarrow> error + Sprite" where
  "resolve_collision tilemap prev_x prev_y s =
     (let player_rect = get_rect s in
      case check_corners tilemap (corners player_rect) of
        Inl e \<Rightarrow> Inl e
      | Inr collided \<Rightarrow>
          if collided then revert_axes tilemap prev_x prev_y s else Inr s)"

text \<open>Screen boundary clamping against \<^verbatim>\<open>renderer.logical_size\<close>.\<close>

definition clamp_to_screen :: "SNESRenderer \<Rightarrow> Sprite \<Rightarrow> Sprite" where
  "clamp_to_screen renderer s =
     (let (logical_width, logical_height) = logical_size renderer;
          s1 = s\<lparr>sprite_x := max 0 (min (sprite_x s) (logical_width - sprite_width s))\<rparr>;
          s2 = s1\<lparr>sprite_y := max 0 (min (sprite_y s1) (logical_height - sprite_height s1))\<rparr>
      in s2)"

text \<open>
  \<^verbatim>\<open>update_game_state\<close> reads the tile map, the renderer and the pressed keys, and
  mutates the player sprite; here they are arguments and the sprite is returned.
\<close>

definition update_game_state ::
  "TileMap \<Rightarrow> SNESRenderer \<Rightarrow> (key \<Rightarrow> bool) \<Rightarrow> Sprite \<Rightarrow> error + Sprite" where
  "update_game_state tilemap renderer keys player_sprite =
     (let prev_x = sprite_x player_sprite;
          prev_y = sprite_y player_sprite;
          moved = apply_keys keys player_sprite
      in case resolve_collision tilemap prev_x prev_y moved of
           Inl e \<Rightarrow> Inl e
         | Inr corrected \<Rightarrow> Inr (clamp_to_screen renderer corrected))"

subsection \<open>The demo set-up of the main block\<close>

text \<open>
  The values the main block builds before it starts the loop. The tile sheet is two
  \<open>TILE_SIZE\<close>-square tiles side by side, the floor tile filled with \<^verbatim>\<open>GREEN\<close> and the
  wall tile with \<^verbatim>\<open>BLUE\<close>; the player is a \<open>PLAYER_SIZE\<close>-square filled with \<^verbatim>\<open>RED\<close>.
  Surfaces filled with an RGB colour are opaque.
\<close>

definition GREEN :: rgba where
  "GREEN = (0, 180, 0, 255)"

definition BLUE :: rgba where
  "BLUE = (0, 0, 200, 255)"

definition RED :: rgba where
  "RED = (200, 0, 0, 255)"

definition floor_tile_img :: Surface where
  "floor_tile_img =
     \<lparr>surf_size = (TILE_SIZE, TILE_SIZE),
      pixels = replicate (nat TILE_SIZE) (replicate (nat TILE_SIZE) GREEN)\<rparr>"

definition wall_tile_img :: Surface where
  "wall_tile_img =
     \<lparr>surf_size = (TILE_SIZE, TILE_SIZE),
      pixels = replicate (nat TILE_SIZE) (replicate (nat TILE_SIZE) BLUE)\<rparr>"

definition tilesheet_surface :: Surface where
  "tilesheet_surface =
     \<lparr>surf_size = (TILE_SIZE * 2, TILE_SIZE),
      pixels = replicate (nat TILE_SIZE)
                 (replicate (nat TILE_SIZE) GREEN @ replicate (nat TILE_SIZE) BLUE)\<rparr>"

text \<open>The tile set \<^verbatim>\<open>TileSet(tilesheet_surface, tile_size=TILE_SIZE)\<close> evaluates to.\<close>

definition tileset :: TileSet where
  "tileset = \<lparr>tiles = [floor_tile_img, wall_tile_img], tile_size_px = TILE_SIZE\<rparr>"

definition map_layout :: "int list list" where
  "map_layout =
     [[1, 1, 1, 1, 1, 1, 1, 1, 1, 1, 1, 1, 1, 1, 1, 1],
      [1, 0, 0, 0, 0, 0, 0, 0, 0, 0, 0, 0, 0, 0, 0, 1],
      [1, 0, 1, 1, 0, 1, 0, 1, 1, 0, 1, 0, 1, 1, 0, 1],
      [1, 0, 0, 0, 0, 1, 0, 0, 0, 0, 1, 0, 0, 0, 0, 1],
      [1, 0, 1, 0, 0, 1, 1, 1, 1, 0, 1, 0, 0, 1, 0, 1],
      [1, 0, 0, 0, 0, 0, 0, 0, 0, 0, 0, 0, 0, 0, 0, 1],
      [1, 0, 1, 1, 1, 0, 1, 1, 1, 0, 1, 1, 1, 0, 0, 1],
      [1, 0, 0, 0, 0, 0, 1, 0, 0, 0, 0, 0, 0, 0, 0, 1],
      [1, 0, 1, 0, 0, 1, 1, 0, 1, 1, 0, 1, 0, 1, 0, 1],
      [1, 0, 1, 0, 0, 0, 0, 0, 1, 0, 0, 1, 0, 0, 0, 1],
      [1, 0, 1, 1, 1, 1, 0, 1, 1, 0, 1, 1, 0, 1, 1, 1],
      [1, 0, 0, 0, 0, 0, 0, 0, 0, 0, 0, 0, 0, 0, 0, 1],
      [1, 0, 0, 0, 0, 0, 0, 0, 0, 0, 0, 0, 0, 0, 0, 1],
      [1, 1, 1, 1, 1, 1, 1, 1, 1, 1, 1, 1, 1, 1, 1, 1]]"

definition map_height :: int where
  "map_height = int (length map_layout)"

definition map_width :: int where
  "map_width = int (length (map_layout ! 0))"

definition tilemap :: TileMap where
  "tilemap = (TileMap_init map_width map_height tileset 0)\<lparr>map_data := map_layout\<rparr>"

definition player_surface :: Surface where
  "player_surface =
     \<lparr>surf_size = (PLAYER_SIZE, PLAYER_SIZE),
      pixels = replicate (nat PLAYER_SIZE) (replicate (nat PLAYER_SIZE) RED)\<rparr>"

definition player_start_x :: int where
  "player_start_x = TILE_SIZE * 1 + (TILE_SIZE - PLAYER_SIZE) div 2"

definition player_start_y :: int where
  "player_start_y = TILE_SIZE * 1 + (TILE_SIZE - PLAYER_SIZE) div 2"

definition player_sprite :: Sprite where
  "player_sprite = Sprite_init player_surface player_start_x player_start_y 1"

text \<open>The renderer after the two \<^verbatim>\<open>add_layer\<close> calls of the main block.\<close>

definition renderer :: SNESRenderer where
  "renderer =
     add_layers (SNESRenderer_init 3 (map_width * TILE_SIZE) (map_height * TILE_SIZE))
       [TileMapObj tilemap, SpriteObj player_sprite]"

subsection \<open>Inputs used by the concrete evaluations\<close>

text \<open>The key state in which exactly the listed keys are held down.\<close>

definition pressed :: "key list \<Rightarrow> key \<Rightarrow> bool" where
  "pressed ks k = (k \<in> set ks)"

text \<open>
  A map of three cells in one row with a wall in the middle, shown on a logical screen
  two tiles wide, and the player standing on the open cell to the right of the wall.
\<close>

definition corridor_map :: TileMap where
  "corridor_map = (TileMap_init 3 1 tileset 0)\<lparr>map_data := [[0, 1, 0]]\<rparr>"

definition narrow_renderer :: SNESRenderer where
  "narrow_renderer = SNESRenderer_init 1 (2 * TILE_SIZE) TILE_SIZE"

definition corridor_player :: Sprite where
  "corridor_player = Sprite_init player_surface (2 * TILE_SIZE) 4 1"

text \<open>A sprite whose image is wider than the demo's logical screen.\<close>

definition wide_surface :: Surface where
  "wide_surface = \<lparr>surf_size = (300, 8), pixels = replicate 8 (replicate 300 RED)\<rparr>"

definition wide_sprite :: Sprite where
  "wide_sprite = Sprite_init wide_surface 20 20 1"

text \<open>
  Sprites that differ in priority and in their x coordinate only, to tell equal-priority
  layers apart, and an object that has a \<^verbatim>\<open>priority\<close> attribute but no \<^verbatim>\<open>draw\<close>.
\<close>

definition layer_sprite :: "int \<Rightarrow> int \<Rightarrow> pyobject" where
  "layer_sprite p x = SpriteObj (Sprite_init player_surface x 0 p)"

definition undrawable :: pyobject where
  "undrawable = OtherObj [(''priority'', 0)]"


subsection \<open>Auxiliary notion for the proofs\<close>

text \<open>
  The test both corner loops apply to one corner of a well-shaped map: the corner's cell
  is off the grid or holds \<open>TILE_WALL\<close>.
\<close>

definition hit :: "TileMap \<Rightarrow> int \<times> int \<Rightarrow> bool" where
  "hit tm c =
     (let tx = fst c div TILE_SIZE; ty = snd c div TILE_SIZE in
      \<not> (0 \<le> tx \<and> tx < width tm \<and> 0 \<le> ty \<and> ty < height tm) \<or>
      map_data tm ! nat ty ! nat tx = TILE_WALL)"

section \<open>TileMap: construction, writes and reads\<close>

lemma rectangular_row:
  assumes "rectangular tm" "0 \<le> y" "y < height tm"
  shows "nat y < length (map_data tm)" "length (map_data tm ! nat y) = nat (width tm)"
proof -
  show a: "nat y < length (map_data tm)"
    using assms by (simp add: rectangular_def)
  show "length (map_data tm ! nat y) = nat (width tm)"
    using assms a by (simp add: rectangular_def list_all_length)
qed

lemma rectangular_init: "rectangular (TileMap_init w h ts p)"
  by (simp add: rectangular_def TileMap_init_def list_all_length)

lemma get_tile_index_rectangular:
  assumes "rectangular tm" "0 \<le> x" "x < width tm" "0 \<le> y" "y < height tm"
  shows "get_tile_index tm x y = Inr (map_data tm ! nat y ! nat x)"
  using assms rectangular_row[of tm y] by (simp add: get_tile_index_def)

lemma rectangular_tilemap: "rectangular tilemap"
  by (simp add: rectangular_def tilemap_def TileMap_init_def map_width_def map_height_def
      map_layout_def)

text \<open>
  C3. \<^verbatim>\<open>set_tile\<close> with a coordinate outside the grid (\<open>x < 0\<close>, \<open>x \<ge> width\<close>, \<open>y < 0\<close> or
  \<open>y \<ge> height\<close>) raises nothing, returns the map exactly as it was (no cell is written,
  none is reached by clamping or wrapping), and reports the rejected coordinate in one
  warning line on stderr.
\<close>

theorem set_tile_out_of_range:
  assumes "x < 0 \<or> width tm \<le> x \<or> y < 0 \<or> height tm \<le> y"
  shows "set_tile tm x y index = Inr (tm, [Warning_out_of_map_bounds x y])"
  using assms by (auto simp add: set_tile_def)

theorem set_tile_out_of_range_witness:
  "((- 1 :: int) < 0 \<or> width (TileMap_init 2 2 tileset 0) \<le> - 1 \<or> (0 :: int) < 0 \<or>
      height (TileMap_init 2 2 tileset 0) \<le> 0) \<and>
   set_tile (TileMap_init 2 2 tileset 0) (- 1) 0 5
     = Inr (TileMap_init 2 2 tileset 0, [Warning_out_of_map_bounds (- 1) 0])"
  using set_tile_out_of_range[of "- 1" "TileMap_init 2 2 tileset 0" 0 5]
  by simp

text \<open>
  C5. On a map of the shape \<^verbatim>\<open>__init__\<close> builds, writing \<open>k\<close> at an in-bounds \<open>(x, y)\<close>
  succeeds without a warning, reading \<open>(x, y)\<close> back gives \<open>k\<close>, and reading any other
  coordinate gives what it gave before the write; the size and shape of the map are kept.
\<close>

theorem set_then_get:
  assumes "rectangular tm" "0 \<le> x" "x < width tm" "0 \<le> y" "y < height tm"
  shows "\<exists>tm'. set_tile tm x y k = Inr (tm', []) \<and>
               get_tile_index tm' x y = Inr k \<and>
               (\<forall>x' y'. (x', y') \<noteq> (x, y) \<longrightarrow>
                    get_tile_index tm' x' y' = get_tile_index tm x' y') \<and>
               width tm' = width tm \<and> height tm' = height tm \<and> rectangular tm'"
proof -
  let ?tm' = "tm\<lparr>map_data := (map_data tm)[nat y := (map_data tm ! nat y)[nat x := k]]\<rparr>"
  have ylen: "nat y < length (map_data tm)"
    and xlen: "length (map_data tm ! nat y) = nat (width tm)"
    using rectangular_row[OF assms(1,4,5)] by simp_all
  have set: "set_tile tm x y k = Inr (?tm', [])"
    using assms ylen xlen by (simp add: set_tile_def)
  have rect': "rectangular ?tm'"
    using assms(1) ylen xlen
    by (auto simp add: rectangular_def list_all_length nth_list_update)
  have get: "get_tile_index ?tm' x y = Inr k"
    using assms ylen xlen by (simp add: get_tile_index_def)
  have other: "get_tile_index ?tm' x' y' = get_tile_index tm x' y'"
    if ne: "(x', y') \<noteq> (x, y)" for x' y'
  proof (cases "0 \<le> y' \<and> y' < height tm \<and> 0 \<le> x' \<and> x' < width tm")
    case False
    then show ?thesis by (auto simp add: get_tile_index_def)
  next
    case inb: True
    show ?thesis
    proof (cases "y' = y")
      case True
      with ne have "x' \<noteq> x" by simp
      then have "nat x' \<noteq> nat x" using \<open>0 \<le> x\<close> inb by arith
      then show ?thesis using True ylen xlen
        by (simp add: get_tile_index_def)
    next
      case False
      then have "nat y' \<noteq> nat y" using \<open>0 \<le> y\<close> inb by arith
      then show ?thesis
        by (simp add: get_tile_index_def)
    qed
  qed
  show ?thesis
    using set get other rect' by (intro exI[of _ ?tm']) simp
qed

theorem set_then_get_witness:
  "rectangular (TileMap_init 2 2 tileset 0) \<and>
   (0 :: int) \<le> 1 \<and> 1 < width (TileMap_init 2 2 tileset 0) \<and>
   (0 :: int) \<le> 0 \<and> 0 < height (TileMap_init 2 2 tileset 0) \<and>
   set_tile (TileMap_init 2 2 tileset 0) 1 0 7
     = Inr ((TileMap_init 2 2 tileset 0)\<lparr>map_data := [[0, 7], [0, 0]]\<rparr>, []) \<and>
   get_tile_index ((TileMap_init 2 2 tileset 0)\<lparr>map_data := [[0, 7], [0, 0]]\<rparr>) 1 0 = Inr 7 \<and>
   get_tile_index ((TileMap_init 2 2 tileset 0)\<lparr>map_data := [[0, 7], [0, 0]]\<rparr>) 0 1
     = get_tile_index (TileMap_init 2 2 tileset 0) 0 1"
proof -
  let ?T = "TileMap_init 2 2 tileset 0"
  have b: "(0 :: int) \<le> 1" "1 < width ?T" "(0 :: int) \<le> 0" "0 < height ?T"
    by (simp_all add: TileMap_init_def)
  obtain tm' where s: "set_tile ?T 1 0 7 = Inr (tm', [])"
    and g: "get_tile_index tm' 1 0 = Inr 7"
    and o: "\<forall>x' y'. (x', y') \<noteq> (1, 0) \<longrightarrow> get_tile_index tm' x' y' = get_tile_index ?T x' y'"
    using set_then_get[OF rectangular_init b, of 7] by blast
  have "set_tile ?T 1 0 7 = Inr (?T\<lparr>map_data := [[0, 7], [0, 0]]\<rparr>, [])"
    by (simp add: set_tile_def TileMap_init_def numeral_2_eq_2)
  with s have e: "tm' = ?T\<lparr>map_data := [[0, 7], [0, 0]]\<rparr>" by simp
  have "get_tile_index tm' 0 1 = get_tile_index ?T 0 1"
    using o by simp
  then show ?thesis
    using s g e b rectangular_init[of 2 2 tileset 0] by simp
qed

text \<open>
  C9. A tile map fresh from \<^verbatim>\<open>__init__\<close> with \<open>width \<ge> 1\<close> and \<open>height \<ge> 1\<close> holds tile
  index 0 in every cell: every stored value is 0, and \<^verbatim>\<open>get_tile_index\<close> returns 0 at
  every in-bounds coordinate.
\<close>

theorem fresh_TileMap_all_zero:
  assumes "1 \<le> w" "1 \<le> h"
  shows "(\<forall>row \<in> set (map_data (TileMap_init w h ts p)). \<forall>c \<in> set row. c = 0) \<and>
         (\<forall>x y. 0 \<le> x \<and> x < w \<and> 0 \<le> y \<and> y < h \<longrightarrow>
              get_tile_index (TileMap_init w h ts p) x y = Inr 0)"
  using assms by (auto simp add: get_tile_index_def TileMap_init_def)

theorem fresh_TileMap_all_zero_witness:
  "(1 :: int) \<le> 2 \<and> (1 :: int) \<le> 3 \<and>
   map_data (TileMap_init 2 3 tileset 0) = [[0, 0], [0, 0], [0, 0]] \<and>
   get_tile_index (TileMap_init 2 3 tileset 0) 1 2 = Inr 0"
proof -
  have "get_tile_index (TileMap_init 2 3 tileset 0) 1 2 = Inr 0"
    using fresh_TileMap_all_zero[of 2 3 tileset 0] by simp
  moreover have "map_data (TileMap_init 2 3 tileset 0) = [[0, 0], [0, 0], [0, 0]]"
    by (simp add: TileMap_init_def numeral_2_eq_2 numeral_3_eq_3)
  ultimately show ?thesis by simp
qed

section \<open>TileSet: slicing and lookup\<close>

lemma slice_row_inside:
  assumes "\<forall>tx \<in> set txs. rect_inside (tx * ts, ty * ts, ts, ts) surface"
  shows "slice_row surface ts ty txs acc
           = Inr (acc @ map (\<lambda>tx. crop surface (tx * ts, ty * ts, ts, ts)) txs)"
  using assms
proof (induction txs arbitrary: acc)
  case Nil
  show ?case by simp
next
  case (Cons tx txs)
  then show ?case
    by (simp add: subsurface_def convert_alpha_def Let_def)
qed

lemma slice_tiles_inside:
  assumes "\<forall>ty \<in> set tys. \<forall>tx \<in> set txs. rect_inside (tx * ts, ty * ts, ts, ts) surface"
  shows "slice_tiles surface ts tys txs acc
           = Inr (acc @ concat (map (\<lambda>ty. map (\<lambda>tx. crop surface (tx * ts, ty * ts, ts, ts)) txs) tys))"
  using assms
proof (induction tys arbitrary: acc)
  case Nil
  show ?case by simp
next
  case (Cons ty tys)
  then show ?case
    by (simp add: slice_row_inside)
qed

lemma nth_concat_rows:
  assumes "i < length tys * length txs"
  shows "concat (map (\<lambda>ty. map (g ty) txs) tys) ! i
           = g (tys ! (i div length txs)) (txs ! (i mod length txs))"
  using assms
proof (induction tys arbitrary: i)
  case Nil
  then show ?case by simp
next
  case (Cons ty tys)
  let ?n = "length txs"
  have npos: "0 < ?n" using Cons.prems by (cases "?n = 0") simp_all
  show ?case
  proof (cases "i < ?n")
    case True
    then show ?thesis by (simp add: nth_append)
  next
    case False
    then have ge: "?n \<le> i" by simp
    have lt: "i - ?n < length tys * ?n" using Cons.prems ge by simp
    have d: "i div ?n = Suc ((i - ?n) div ?n)"
      using npos ge by (rule le_div_geq)
    have m: "i mod ?n = (i - ?n) mod ?n"
      using ge by (rule le_mod_geq)
    show ?thesis
      using False Cons.IH[OF lt] by (simp add: nth_append d m)
  qed
qed

lemma int_div_times_le:
  fixes a b :: int
  assumes "0 < b"
  shows "a div b * b \<le> a"
proof -
  have "a div b * b + a mod b = a" by (rule div_mult_mod_eq)
  moreover have "0 \<le> a mod b" using assms by (rule pos_mod_sign)
  ultimately show ?thesis by linarith
qed

lemma tile_rect_inside:
  assumes ts: "1 \<le> ts" and w: "get_size surface = (w, h)"
    and tx: "0 \<le> tx" "tx < w div ts" and ty: "0 \<le> ty" "ty < h div ts"
  shows "rect_inside (tx * ts, ty * ts, ts, ts) surface"
proof -
  have "(tx + 1) * ts \<le> (w div ts) * ts"
    using tx ts by (intro mult_right_mono) simp_all
  also have "\<dots> \<le> w" using ts by (intro int_div_times_le) simp
  finally have a: "tx * ts + ts \<le> w" by (simp add: algebra_simps)
  have "(ty + 1) * ts \<le> (h div ts) * ts"
    using ty ts by (intro mult_right_mono) simp_all
  also have "\<dots> \<le> h" using ts by (intro int_div_times_le) simp
  finally have b: "ty * ts + ts \<le> h" by (simp add: algebra_simps)
  show ?thesis
    using a b tx ty ts w by (simp add: rect_inside_def get_width_def get_height_def get_size_def)
qed

text \<open>
  C8. For a source surface of width \<open>w\<close> and height \<open>h\<close> and a tile size \<open>ts \<ge> 1\<close>,
  \<^verbatim>\<open>TileSet.__init__\<close> succeeds and stores exactly \<open>(w div ts) * (h div ts)\<close> tiles (floor
  division, so a partial trailing row or column is dropped); tile number \<open>i\<close> is the
  \<open>ts\<close>-square subsurface at column \<open>i mod cols\<close> and row \<open>i div cols\<close>, that is, the
  tiles are in row-major order, left to right and then top to bottom.
\<close>

theorem TileSet_init_slices_row_major:
  assumes ts: "1 \<le> ts" and sz: "get_size surface = (w, h)" and w: "0 \<le> w" and h: "0 \<le> h"
  shows "\<exists>t. TileSet_init surface ts = Inr t \<and>
             tile_size_px t = ts \<and>
             int (length (tiles t)) = (w div ts) * (h div ts) \<and>
             (\<forall>i < length (tiles t).
                subsurface surface
                  ((int i mod (w div ts)) * ts, (int i div (w div ts)) * ts, ts, ts)
                  = Inr (tiles t ! i))"
proof -
  let ?nx = "w div ts" and ?ny = "h div ts"
  let ?txs = "[0..?nx - 1]" and ?tys = "[0..?ny - 1]"
  let ?g = "\<lambda>ty tx. crop surface (tx * ts, ty * ts, ts, ts)"
  let ?tiles = "concat (map (\<lambda>ty. map (?g ty) ?txs) ?tys)"
  have nx: "0 \<le> ?nx" and ny: "0 \<le> ?ny"
    using ts w h by (simp_all add: pos_imp_zdiv_nonneg_iff)
  have inside: "\<forall>ty \<in> set ?tys. \<forall>tx \<in> set ?txs. rect_inside (tx * ts, ty * ts, ts, ts) surface"
    using tile_rect_inside[OF ts sz] by simp
  have run: "slice_tiles surface ts ?tys ?txs [] = Inr ?tiles"
    using slice_tiles_inside[OF inside, of "[]"] by simp
  have init: "TileSet_init surface ts = Inr \<lparr>tiles = ?tiles, tile_size_px = ts\<rparr>"
    using ts by (simp add: TileSet_init_def sz run)
  have ltx: "length ?txs = nat ?nx" and lty: "length ?tys = nat ?ny"
    by simp_all
  have len: "length ?tiles = nat ?ny * nat ?nx"
    by (simp add: length_concat comp_def sum_list_triv)
  have count: "int (length ?tiles) = ?nx * ?ny"
    using nx ny by (simp add: len)
  have tile: "subsurface surface ((int i mod ?nx) * ts, (int i div ?nx) * ts, ts, ts) = Inr (?tiles ! i)"
    if i: "i < length ?tiles" for i
  proof -
    have il: "i < nat ?ny * nat ?nx" using i by (simp only: len)
    have i': "i < length ?tys * length ?txs" using il by (simp only: ltx lty)
    have nxpos: "0 < nat ?nx" using il by (cases "nat ?nx = 0") simp_all
    have m: "i mod nat ?nx < nat ?nx" using nxpos by simp
    have d: "i div nat ?nx < nat ?ny"
      using il by (rule less_mult_imp_div_less)
    have im: "int (i mod nat ?nx) = int i mod ?nx"
      using nx by (simp add: zmod_int)
    have idv: "int (i div nat ?nx) = int i div ?nx"
      using nx by (simp add: zdiv_int)
    have tx: "?txs ! (i mod nat ?nx) = int i mod ?nx"
      using m nx im by simp
    have ty: "?tys ! (i div nat ?nx) = int i div ?nx"
      using d ny idv by simp
    have "?tiles ! i = ?g (?tys ! (i div length ?txs)) (?txs ! (i mod length ?txs))"
      using i' by (rule nth_concat_rows)
    then have e: "?tiles ! i = ?g (int i div ?nx) (int i mod ?nx)"
      by (simp only: ltx tx ty)
    have "0 \<le> int i mod ?nx" "int i mod ?nx < ?nx" "0 \<le> int i div ?nx" "int i div ?nx < ?ny"
      using m d nx ny im idv by linarith+
    then have "rect_inside ((int i mod ?nx) * ts, (int i div ?nx) * ts, ts, ts) surface"
      by (intro tile_rect_inside[OF ts sz])
    then show ?thesis
      by (simp add: subsurface_def e)
  qed
  show ?thesis
    using init count tile by (intro exI[of _ "\<lparr>tiles = ?tiles, tile_size_px = ts\<rparr>"]) simp
qed

theorem TileSet_init_slices_row_major_witness:
  "(1 :: int) \<le> 16 \<and> get_size tilesheet_surface = (32, 16) \<and> (0 :: int) \<le> 32 \<and> (0 :: int) \<le> 16 \<and>
   TileSet_init tilesheet_surface 16 = Inr tileset \<and>
   int (length (tiles tileset)) = (32 div 16) * (16 div 16)"
proof -
  have sz: "get_size tilesheet_surface = (32, 16)"
    by (simp add: get_size_def tilesheet_surface_def TILE_SIZE_def)
  obtain t where t: "TileSet_init tilesheet_surface 16 = Inr t"
    and px: "tile_size_px t = 16"
    and len: "int (length (tiles t)) = (32 div 16) * (16 div 16)"
    and nth: "\<forall>i < length (tiles t).
                subsurface tilesheet_surface
                  ((int i mod (32 div 16)) * 16, (int i div (32 div 16)) * 16, 16, 16)
                  = Inr (tiles t ! i)"
    using TileSet_init_slices_row_major[OF _ sz, of 16] by auto
  have l2: "length (tiles t) = 2" using len by simp
  have "subsurface tilesheet_surface
          ((int 0 mod (32 div 16)) * 16, (int 0 div (32 div 16)) * 16, 16, 16) = Inr (tiles t ! 0)"
    using nth[rule_format, of 0] l2 by simp
  then have t0: "tiles t ! 0 = floor_tile_img"
    by (simp add: subsurface_def rect_inside_def crop_def get_width_def get_height_def
        tilesheet_surface_def floor_tile_img_def TILE_SIZE_def)
  have "subsurface tilesheet_surface
          ((int 1 mod (32 div 16)) * 16, (int 1 div (32 div 16)) * 16, 16, 16) = Inr (tiles t ! 1)"
    using nth[rule_format, of 1] l2 by simp
  then have t1: "tiles t ! 1 = wall_tile_img"
    by (simp add: subsurface_def rect_inside_def crop_def get_width_def get_height_def
        tilesheet_surface_def wall_tile_img_def TILE_SIZE_def)
  have "tiles t = [tiles t ! 0, tiles t ! 1]"
    using l2 by (cases "tiles t"; cases "tl (tiles t)") (auto simp add: numeral_2_eq_2)
  then have "tiles t = [floor_tile_img, wall_tile_img]"
    by (simp only: t0 t1)
  then have "t = tileset"
    using px by (simp add: tileset_def TILE_SIZE_def)
  then show ?thesis
    using t sz by (simp add: tileset_def)
qed



section \<open>SNESRenderer: the layer list\<close>

lemma add_layer_accepts:
  assumes "hasattr l ''draw''" "hasattr l ''priority''"
  shows "add_layer r l = Inr (r\<lparr>layers := sort_key (\<lambda>l. getattr_priority l 0) (layers r @ [l])\<rparr>)"
  using assms by (simp add: add_layer_def)

lemma add_layer_rejects:
  assumes "\<not> (hasattr l ''draw'' \<and> hasattr l ''priority'')"
  shows "add_layer r l = Inl ValueError"
  using assms by (auto simp add: add_layer_def)

lemma add_layers_sorted:
  assumes "sorted (map (\<lambda>l. getattr_priority l 0) (layers r))"
  shows "sorted (map (\<lambda>l. getattr_priority l 0) (layers (add_layers r ls)))"
  using assms
proof (induction ls arbitrary: r)
  case Nil
  then show ?case by simp
next
  case (Cons l ls)
  show ?case
  proof (cases "hasattr l ''draw'' \<and> hasattr l ''priority''")
    case True
    then show ?thesis
      by (simp add: add_layer_accepts Cons.IH)
  next
    case False
    then show ?thesis
      using Cons.prems by (simp add: add_layer_rejects Cons.IH)
  qed
qed

lemma add_layers_stable:
  "filter (\<lambda>l. getattr_priority l 0 = k) (layers (add_layers r ls))
     = filter (\<lambda>l. getattr_priority l 0 = k) (layers r)
       @ filter (\<lambda>l. getattr_priority l 0 = k)
           (filter (\<lambda>l. hasattr l ''draw'' \<and> hasattr l ''priority'') ls)"
proof (induction ls arbitrary: r)
  case Nil
  show ?case by simp
next
  case (Cons l ls)
  show ?case
  proof (cases "hasattr l ''draw'' \<and> hasattr l ''priority''")
    case True
    then show ?thesis
      by (simp add: add_layer_accepts Cons.IH sort_key_stable)
  next
    case False
    then show ?thesis
      by (simp add: add_layer_rejects Cons.IH)
  qed
qed

lemma add_layers_drawable:
  assumes "\<forall>l \<in> set (layers r). hasattr l ''draw'' \<and> hasattr l ''priority''"
  shows "\<forall>l \<in> set (layers (add_layers r ls)). hasattr l ''draw'' \<and> hasattr l ''priority''"
  using assms
proof (induction ls arbitrary: r)
  case Nil
  then show ?case by simp
next
  case (Cons l ls)
  show ?case
  proof (cases "hasattr l ''draw'' \<and> hasattr l ''priority''")
    case True
    have "\<forall>l' \<in> set (layers (r\<lparr>layers := sort_key (\<lambda>l. getattr_priority l 0) (layers r @ [l])\<rparr>)).
            hasattr l' ''draw'' \<and> hasattr l' ''priority''"
      using True Cons.prems by simp
    from Cons.IH[OF this] show ?thesis
      using True by (simp add: add_layer_accepts)
  next
    case False
    then show ?thesis
      using Cons.IH[OF Cons.prems] by (simp add: add_layer_rejects)
  qed
qed

text \<open>
  C6. Whatever objects are passed to \<^verbatim>\<open>add_layer\<close> on a new renderer, one after the
  other, the layer list is sorted ascending by priority, and for each priority value the
  layers of that priority are the accepted objects of that priority in the order they were
  passed (ties keep insertion order). Registering priorities 3, 1, 2 gives the order
  1, 2, 3; two sprites of priority 1 keep their order, also when a layer of lower priority
  is registered after them.
\<close>

theorem layers_sorted_and_stable:
  "sorted (map (\<lambda>l. getattr_priority l 0) (layers (add_layers (SNESRenderer_init sc lw lh) ls))) \<and>
   (\<forall>k. filter (\<lambda>l. getattr_priority l 0 = k) (layers (add_layers (SNESRenderer_init sc lw lh) ls))
        = filter (\<lambda>l. getattr_priority l 0 = k)
            (filter (\<lambda>l. hasattr l ''draw'' \<and> hasattr l ''priority'') ls)) \<and>
   layers (add_layers (SNESRenderer_init sc lw lh)
             [layer_sprite 3 0, layer_sprite 1 0, layer_sprite 2 0])
     = [layer_sprite 1 0, layer_sprite 2 0, layer_sprite 3 0] \<and>
   layers (add_layers (SNESRenderer_init sc lw lh)
             [layer_sprite 1 0, layer_sprite 1 1, layer_sprite 0 2])
     = [layer_sprite 0 2, layer_sprite 1 0, layer_sprite 1 1]"
proof -
  let ?r = "SNESRenderer_init sc lw lh"
  have e: "layers ?r = []" by (simp add: SNESRenderer_init_def)
  have "sorted (map (\<lambda>l. getattr_priority l 0) (layers (add_layers ?r ls)))"
    by (rule add_layers_sorted) (simp add: e)
  moreover have "\<forall>k. filter (\<lambda>l. getattr_priority l 0 = k) (layers (add_layers ?r ls))
        = filter (\<lambda>l. getattr_priority l 0 = k)
            (filter (\<lambda>l. hasattr l ''draw'' \<and> hasattr l ''priority'') ls)"
    by (simp add: add_layers_stable e)
  moreover have "layers (add_layers ?r [layer_sprite 3 0, layer_sprite 1 0, layer_sprite 2 0])
     = [layer_sprite 1 0, layer_sprite 2 0, layer_sprite 3 0]"
    by (simp add: layer_sprite_def add_layer_def SNESRenderer_init_def Sprite_init_def)
  moreover have "layers (add_layers ?r [layer_sprite 1 0, layer_sprite 1 1, layer_sprite 0 2])
     = [layer_sprite 0 2, layer_sprite 1 0, layer_sprite 1 1]"
    by (simp add: layer_sprite_def add_layer_def SNESRenderer_init_def Sprite_init_def)
  ultimately show ?thesis by blast
qed

theorem layers_sorted_and_stable_witness:
  "sorted (map (\<lambda>l. getattr_priority l 0)
      (layers (add_layers (SNESRenderer_init 3 256 224)
                 [SpriteObj player_sprite, undrawable, TileMapObj tilemap]))) \<and>
   layers (add_layers (SNESRenderer_init 3 256 224)
             [SpriteObj player_sprite, undrawable, TileMapObj tilemap])
     = [TileMapObj tilemap, SpriteObj player_sprite]"
proof -
  have "layers (add_layers (SNESRenderer_init 3 256 224)
             [SpriteObj player_sprite, undrawable, TileMapObj tilemap])
     = [TileMapObj tilemap, SpriteObj player_sprite]"
    by (simp add: add_layer_def SNESRenderer_init_def undrawable_def player_sprite_def
        Sprite_init_def tilemap_def TileMap_init_def)
  then show ?thesis
    using layers_sorted_and_stable[of 3 256 224 "[SpriteObj player_sprite, undrawable, TileMapObj tilemap]"]
    by simp
qed

text \<open>
  C10. \<^verbatim>\<open>add_layer\<close> raises \<^verbatim>\<open>ValueError\<close> for an object that lacks \<^verbatim>\<open>draw\<close> or lacks
  \<^verbatim>\<open>priority\<close>, before anything is appended, and accepts every object that has both; so
  after any series of calls on a new renderer every layer has both attributes.
\<close>

theorem add_layer_checks_drawable:
  "(\<not> (hasattr l ''draw'' \<and> hasattr l ''priority'') \<longrightarrow> add_layer r l = Inl ValueError) \<and>
   (hasattr l ''draw'' \<and> hasattr l ''priority'' \<longrightarrow> (\<exists>r'. add_layer r l = Inr r')) \<and>
   (\<forall>l' \<in> set (layers (add_layers (SNESRenderer_init sc lw lh) ls)).
      hasattr l' ''draw'' \<and> hasattr l' ''priority'')"
proof -
  have "\<forall>l' \<in> set (layers (add_layers (SNESRenderer_init sc lw lh) ls)).
          hasattr l' ''draw'' \<and> hasattr l' ''priority''"
    by (rule add_layers_drawable) (simp add: SNESRenderer_init_def)
  then show ?thesis
    by (auto simp add: add_layer_def)
qed

theorem add_layer_checks_drawable_witness:
  "\<not> (hasattr undrawable ''draw'' \<and> hasattr undrawable ''priority'') \<and>
   add_layer (SNESRenderer_init 3 256 224) undrawable = Inl ValueError \<and>
   hasattr (TileMapObj tilemap) ''draw'' \<and> hasattr (TileMapObj tilemap) ''priority'' \<and>
   layers (add_layers (SNESRenderer_init 3 256 224) [undrawable, TileMapObj tilemap])
     = [TileMapObj tilemap]"
proof -
  have n: "\<not> (hasattr undrawable ''draw'' \<and> hasattr undrawable ''priority'')"
    by (simp add: undrawable_def)
  have y: "hasattr (TileMapObj tilemap) ''draw'' \<and> hasattr (TileMapObj tilemap) ''priority''"
    by simp
  have rej: "add_layer (SNESRenderer_init 3 256 224) undrawable = Inl ValueError"
    using add_layer_checks_drawable[of undrawable "SNESRenderer_init 3 256 224"] n by blast
  have "layers (add_layers (SNESRenderer_init 3 256 224) [undrawable, TileMapObj tilemap])
          = [TileMapObj tilemap]"
    by (simp add: rej) (simp add: add_layer_def SNESRenderer_init_def)
  then show ?thesis
    using n y rej by simp
qed

section \<open>The per-frame update\<close>

subsection \<open>The corner loops on a well-shaped map\<close>

lemma check_corners_rectangular:
  assumes "rectangular tm"
  shows "check_corners tm cs = Inr (list_ex (hit tm) cs)"
proof (induction cs)
  case Nil
  show ?case by simp
next
  case (Cons c cs)
  obtain px py where c: "c = (px, py)" by (cases c)
  show ?case
    using Cons.IH get_tile_index_rectangular[OF assms, of "px div TILE_SIZE" "py div TILE_SIZE"]
    by (auto simp add: c hit_def Let_def)
qed

lemma check_corners_axis_rectangular:
  assumes "rectangular tm"
  shows "check_corners_axis tm cs = Inr (list_ex (hit tm) cs)"
proof (induction cs)
  case Nil
  show ?case by simp
next
  case (Cons c cs)
  obtain px py where c: "c = (px, py)" by (cases c)
  show ?case
    using Cons.IH get_tile_index_rectangular[OF assms, of "px div TILE_SIZE" "py div TILE_SIZE"]
    by (auto simp add: c hit_def Let_def)
qed

lemma revert_axes_rectangular:
  assumes "rectangular tm"
  shows "revert_axes tm prev_x prev_y s = Inr (s\<lparr>sprite_x := prev_x, sprite_y := prev_y\<rparr>)"
  by (simp add: revert_axes_def Let_def check_corners_axis_rectangular[OF assms])

lemma resolve_collision_rectangular:
  assumes "rectangular tm"
  shows "resolve_collision tm prev_x prev_y s =
           Inr (if list_ex (hit tm) (corners (get_rect s))
                then s\<lparr>sprite_x := prev_x, sprite_y := prev_y\<rparr> else s)"
  by (simp add: resolve_collision_def Let_def check_corners_rectangular[OF assms]
      revert_axes_rectangular[OF assms])

lemma apply_keys_size:
  "sprite_width (apply_keys keys s) = sprite_width s"
  "sprite_height (apply_keys keys s) = sprite_height s"
  by (simp_all add: apply_keys_def Let_def)


lemma tile_div_nonneg: "0 \<le> a div TILE_SIZE \<Longrightarrow> 0 \<le> a"
  unfolding TILE_SIZE_def by presburger

lemma tile_div_less: "a div TILE_SIZE < n \<Longrightarrow> a < n * TILE_SIZE"
  unfolding TILE_SIZE_def by presburger

lemma not_hit_inside:
  assumes "\<not> hit tm (px, py)"
  shows "0 \<le> px" "0 \<le> py" "px < width tm * TILE_SIZE" "py < height tm * TILE_SIZE"
proof -
  from assms have b: "0 \<le> px div TILE_SIZE" "px div TILE_SIZE < width tm"
    "0 \<le> py div TILE_SIZE" "py div TILE_SIZE < height tm"
    by (simp_all add: hit_def Let_def)
  show "0 \<le> px" using b(1) by (rule tile_div_nonneg)
  show "0 \<le> py" using b(3) by (rule tile_div_nonneg)
  show "px < width tm * TILE_SIZE" using b(2) by (rule tile_div_less)
  show "py < height tm * TILE_SIZE" using b(4) by (rule tile_div_less)
qed

lemma clear_inside:
  assumes "\<not> list_ex (hit tm) (corners (get_rect s))"
  shows "0 \<le> sprite_x s" "0 \<le> sprite_y s"
    "sprite_x s + sprite_width s \<le> width tm * TILE_SIZE"
    "sprite_y s + sprite_height s \<le> height tm * TILE_SIZE"
proof -
  from assms have tl: "\<not> hit tm (sprite_x s, sprite_y s)"
    and br: "\<not> hit tm (sprite_x s + sprite_width s - 1, sprite_y s + sprite_height s - 1)"
    by (simp_all add: corners_def get_rect_def new_Rect_def left_def top_def right_def bottom_def)
  show "0 \<le> sprite_x s" "0 \<le> sprite_y s"
    using not_hit_inside[OF tl] by simp_all
  show "sprite_x s + sprite_width s \<le> width tm * TILE_SIZE"
    using not_hit_inside(3)[OF br] by simp
  show "sprite_y s + sprite_height s \<le> height tm * TILE_SIZE"
    using not_hit_inside(4)[OF br] by simp
qed

lemma clamp_to_screen_inside:
  assumes "0 \<le> sprite_x s" "0 \<le> sprite_y s"
    "sprite_x s + sprite_width s \<le> fst (logical_size r)"
    "sprite_y s + sprite_height s \<le> snd (logical_size r)"
  shows "clamp_to_screen r s = s"
proof -
  obtain lw lh where l: "logical_size r = (lw, lh)" by (cases "logical_size r")
  have "max 0 (min (sprite_x s) (lw - sprite_width s)) = sprite_x s"
    using assms l by simp
  moreover have "max 0 (min (sprite_y s) (lh - sprite_height s)) = sprite_y s"
    using assms l by simp
  ultimately show ?thesis
    by (simp add: clamp_to_screen_def l Let_def)
qed

lemma check_corners_clear_iff:
  assumes "rectangular tm"
  shows "(check_corners tm cs = Inr False) = (\<not> list_ex (hit tm) cs)"
  by (simp add: check_corners_rectangular[OF assms])

lemma update_game_state_rectangular:
  assumes "rectangular tm"
  shows "update_game_state tm r keys s =
           Inr (clamp_to_screen r
                  (if list_ex (hit tm) (corners (get_rect (apply_keys keys s)))
                   then (apply_keys keys s)\<lparr>sprite_x := sprite_x s, sprite_y := sprite_y s\<rparr>
                   else apply_keys keys s))"
  by (simp add: update_game_state_def Let_def resolve_collision_rectangular[OF assms])

lemma reverted_rect:
  "get_rect ((apply_keys keys s)\<lparr>sprite_x := sprite_x s, sprite_y := sprite_y s\<rparr>) = get_rect s"
  by (simp add: get_rect_def apply_keys_size)

lemma rectangular_corridor_map: "rectangular corridor_map"
  by (simp add: rectangular_def corridor_map_def TileMap_init_def)

lemma clamp_to_screen_fields:
  "sprite_x (clamp_to_screen r c) = max 0 (min (sprite_x c) (fst (logical_size r) - sprite_width c))"
  "sprite_y (clamp_to_screen r c) = max 0 (min (sprite_y c) (snd (logical_size r) - sprite_height c))"
  "sprite_width (clamp_to_screen r c) = sprite_width c"
  "sprite_height (clamp_to_screen r c) = sprite_height c"
  by (simp_all add: clamp_to_screen_def Let_def split: prod.splits)

lemma resolve_collision_size:
  assumes "rectangular tm"
  shows "\<exists>c. resolve_collision tm px py s = Inr c \<and>
             sprite_width c = sprite_width s \<and> sprite_height c = sprite_height s"
  by (simp add: resolve_collision_rectangular[OF assms])

text \<open>The unfolding that evaluates one tick on concrete inputs.\<close>

lemmas tick_eval =
  update_game_state_def resolve_collision_def revert_axes_def clamp_to_screen_def
  apply_keys_def pressed_def Let_def MOVE_SPEED_def
  corners_def get_rect_def new_Rect_def left_def top_def right_def bottom_def
  Sprite_init_def get_width_def get_height_def player_surface_def
  PLAYER_SIZE_def TILE_SIZE_def TILE_WALL_def get_tile_index_def
  TileMap_init_def SNESRenderer_init_def convert_alpha_def

lemma logical_size_renderer: "logical_size renderer = (256, 224)"
  by (simp add: renderer_def add_layer_def SNESRenderer_init_def map_width_def map_height_def
      map_layout_def TILE_SIZE_def)

lemmas demo_eval =
  tilemap_def logical_size_renderer map_width_def map_height_def map_layout_def
  player_sprite_def player_start_x_def player_start_y_def

lemmas corridor_eval =
  corridor_map_def narrow_renderer_def corridor_player_def

subsection \<open>Collision response\<close>

text \<open>
  C1. The claim asks for sliding: when the fully moved box collides, the moved X is tested
  with the previous Y, then the moved Y, and only a blocked axis is put back. The callback
  puts both coordinates back before it builds the two per-axis rectangles, so both tests
  look at the previous position. On the demo map the player, started at \<open>(20, 20)\<close>, is at
  \<open>(16, 20)\<close> after two ticks with LEFT held; a tick with LEFT and DOWN held then ends at
  \<open>(16, 20)\<close>, although the per-axis test finds the moved X \<open>(14, 20)\<close> blocked and the
  moved Y \<open>(16, 22)\<close> free.
\<close>

theorem diagonal_move_into_wall_reverts_both_axes:
  "update_game_state tilemap renderer (pressed [K_LEFT]) player_sprite
     = Inr (player_sprite\<lparr>sprite_x := 18\<rparr>) \<and>
   update_game_state tilemap renderer (pressed [K_LEFT]) (player_sprite\<lparr>sprite_x := 18\<rparr>)
     = Inr (player_sprite\<lparr>sprite_x := 16\<rparr>) \<and>
   sprite_y (player_sprite\<lparr>sprite_x := 16\<rparr>) = 20 \<and>
   update_game_state tilemap renderer (pressed [K_LEFT, K_DOWN]) (player_sprite\<lparr>sprite_x := 16\<rparr>)
     = Inr (player_sprite\<lparr>sprite_x := 16\<rparr>) \<and>
   check_corners_axis tilemap (corners (new_Rect 14 20 PLAYER_SIZE PLAYER_SIZE)) = Inr True \<and>
   check_corners_axis tilemap (corners (new_Rect 16 22 PLAYER_SIZE PLAYER_SIZE)) = Inr False"
  by (simp add: tick_eval demo_eval)

text \<open>
  C2, as amended. On a well-shaped map and a logical screen at least as large as the map
  in pixels (\<open>width * TILE_SIZE \<le> logical_width\<close>, \<open>height * TILE_SIZE \<le> logical_height\<close>;
  the demo builds the screen with exactly the map's size), if the four corners of the box
  at the previous position (left, right - 1, top, bottom - 1, floor-divided by the tile
  size) are all on the grid and on no wall, the tick returns a position whose four
  corners are all on the grid and on no wall.
\<close>

theorem collision_safety_on_covering_screen:
  assumes rect: "rectangular tm"
    and lw: "width tm * TILE_SIZE \<le> fst (logical_size r)"
    and lh: "height tm * TILE_SIZE \<le> snd (logical_size r)"
    and prev: "check_corners tm (corners (get_rect s)) = Inr False"
  shows "\<exists>s'. update_game_state tm r keys s = Inr s' \<and>
              check_corners tm (corners (get_rect s')) = Inr False"
proof -
  let ?m = "apply_keys keys s"
  let ?c = "if list_ex (hit tm) (corners (get_rect ?m))
            then ?m\<lparr>sprite_x := sprite_x s, sprite_y := sprite_y s\<rparr> else ?m"
  have prev': "\<not> list_ex (hit tm) (corners (get_rect s))"
    using prev by (simp add: check_corners_clear_iff[OF rect])
  have clear: "\<not> list_ex (hit tm) (corners (get_rect ?c))"
    using prev' by (simp add: reverted_rect)
  have "clamp_to_screen r ?c = ?c"
  proof (rule clamp_to_screen_inside)
    show "0 \<le> sprite_x ?c" "0 \<le> sprite_y ?c"
      using clear_inside(1,2)[OF clear] by simp_all
    show "sprite_x ?c + sprite_width ?c \<le> fst (logical_size r)"
      using clear_inside(3)[OF clear] lw by linarith
    show "sprite_y ?c + sprite_height ?c \<le> snd (logical_size r)"
      using clear_inside(4)[OF clear] lh by linarith
  qed
  then have "update_game_state tm r keys s = Inr ?c"
    by (simp add: update_game_state_rectangular[OF rect])
  moreover have "check_corners tm (corners (get_rect ?c)) = Inr False"
    using clear check_corners_clear_iff[OF rect] by blast
  ultimately show ?thesis by blast
qed

theorem collision_safety_on_covering_screen_witness:
  "rectangular tilemap \<and>
   width tilemap * TILE_SIZE \<le> fst (logical_size renderer) \<and>
   height tilemap * TILE_SIZE \<le> snd (logical_size renderer) \<and>
   check_corners tilemap (corners (get_rect player_sprite)) = Inr False \<and>
   update_game_state tilemap renderer (pressed [K_UP]) player_sprite
     = Inr (player_sprite\<lparr>sprite_y := 18\<rparr>) \<and>
   check_corners tilemap (corners (get_rect (player_sprite\<lparr>sprite_y := 18\<rparr>))) = Inr False"
proof -
  have a: "width tilemap * TILE_SIZE \<le> fst (logical_size renderer)"
    by (simp add: tick_eval demo_eval)
  have b: "height tilemap * TILE_SIZE \<le> snd (logical_size renderer)"
    by (simp add: tick_eval demo_eval)
  have c: "check_corners tilemap (corners (get_rect player_sprite)) = Inr False"
    by (simp add: tick_eval demo_eval)
  have u: "update_game_state tilemap renderer (pressed [K_UP]) player_sprite
             = Inr (player_sprite\<lparr>sprite_y := 18\<rparr>)"
    by (simp add: tick_eval demo_eval)
  obtain s' where s': "update_game_state tilemap renderer (pressed [K_UP]) player_sprite = Inr s'"
    and f: "check_corners tilemap (corners (get_rect s')) = Inr False"
    using collision_safety_on_covering_screen[OF rectangular_tilemap a b c] by blast
  from s' u have "s' = player_sprite\<lparr>sprite_y := 18\<rparr>" by simp
  with f show ?thesis
    using rectangular_tilemap a b c u by simp
qed

text \<open>
  C2 as stated fails when the logical screen is smaller than the map: in a one-row
  corridor \<open>[0, 1, 0]\<close> on a screen two tiles wide, the player standing still on the right
  open cell is clamped to \<open>x = 24\<close>, onto the wall cell.
\<close>

theorem clamping_moves_into_wall:
  "check_corners corridor_map (corners (get_rect corridor_player)) = Inr False \<and>
   update_game_state corridor_map narrow_renderer (pressed []) corridor_player
     = Inr (corridor_player\<lparr>sprite_x := 24\<rparr>) \<and>
   check_corners corridor_map (corners (get_rect (corridor_player\<lparr>sprite_x := 24\<rparr>))) = Inr True \<and>
   get_tile_index corridor_map (24 div TILE_SIZE) (4 div TILE_SIZE) = Inr TILE_WALL"
  by (simp add: tick_eval corridor_eval)

subsection \<open>Screen boundary clamping\<close>

text \<open>
  C7, as amended. On a well-shaped map, for a sprite no wider and no higher than the
  logical screen, the tick returns the collision-corrected position clamped into the
  screen: the box lies within \<open>[0, logical_width]\<close> and \<open>[0, logical_height]\<close>; a
  corrected x above \<open>logical_width - width\<close> ends exactly there, a corrected x below 0
  ends at 0, any other x is kept; and the same on the y axis.
\<close>

theorem clamped_inside_screen_when_fitting:
  assumes rect: "rectangular tm"
    and fw: "sprite_width s \<le> fst (logical_size r)"
    and fh: "sprite_height s \<le> snd (logical_size r)"
  shows "\<exists>c s'. resolve_collision tm (sprite_x s) (sprite_y s) (apply_keys keys s) = Inr c \<and>
           update_game_state tm r keys s = Inr s' \<and>
           0 \<le> sprite_x s' \<and> sprite_x s' + sprite_width s' \<le> fst (logical_size r) \<and>
           0 \<le> sprite_y s' \<and> sprite_y s' + sprite_height s' \<le> snd (logical_size r) \<and>
           (fst (logical_size r) - sprite_width s < sprite_x c \<longrightarrow>
              sprite_x s' = fst (logical_size r) - sprite_width s) \<and>
           (sprite_x c < 0 \<longrightarrow> sprite_x s' = 0) \<and>
           (0 \<le> sprite_x c \<and> sprite_x c \<le> fst (logical_size r) - sprite_width s \<longrightarrow>
              sprite_x s' = sprite_x c) \<and>
           (snd (logical_size r) - sprite_height s < sprite_y c \<longrightarrow>
              sprite_y s' = snd (logical_size r) - sprite_height s) \<and>
           (sprite_y c < 0 \<longrightarrow> sprite_y s' = 0) \<and>
           (0 \<le> sprite_y c \<and> sprite_y c \<le> snd (logical_size r) - sprite_height s \<longrightarrow>
              sprite_y s' = sprite_y c)"
proof -
  obtain c where c: "resolve_collision tm (sprite_x s) (sprite_y s) (apply_keys keys s) = Inr c"
    and cw: "sprite_width c = sprite_width s" and ch: "sprite_height c = sprite_height s"
    using resolve_collision_size[OF rect, of "sprite_x s" "sprite_y s" "apply_keys keys s"]
    by (auto simp add: apply_keys_size)
  have u: "update_game_state tm r keys s = Inr (clamp_to_screen r c)"
    by (simp add: update_game_state_def Let_def c)
  have x: "sprite_x (clamp_to_screen r c) = max 0 (min (sprite_x c) (fst (logical_size r) - sprite_width s))"
    and y: "sprite_y (clamp_to_screen r c) = max 0 (min (sprite_y c) (snd (logical_size r) - sprite_height s))"
    and w: "sprite_width (clamp_to_screen r c) = sprite_width s"
    and h: "sprite_height (clamp_to_screen r c) = sprite_height s"
    by (simp_all add: clamp_to_screen_fields cw ch)
  have px: "0 \<le> sprite_x (clamp_to_screen r c) \<and>
            sprite_x (clamp_to_screen r c) + sprite_width (clamp_to_screen r c) \<le> fst (logical_size r)"
    unfolding x w using fw by linarith
  have py: "0 \<le> sprite_y (clamp_to_screen r c) \<and>
            sprite_y (clamp_to_screen r c) + sprite_height (clamp_to_screen r c) \<le> snd (logical_size r)"
    unfolding y h using fh by linarith
  have ex: "(fst (logical_size r) - sprite_width s < sprite_x c \<longrightarrow>
              sprite_x (clamp_to_screen r c) = fst (logical_size r) - sprite_width s) \<and>
           (sprite_x c < 0 \<longrightarrow> sprite_x (clamp_to_screen r c) = 0) \<and>
           (0 \<le> sprite_x c \<and> sprite_x c \<le> fst (logical_size r) - sprite_width s \<longrightarrow>
              sprite_x (clamp_to_screen r c) = sprite_x c)"
    unfolding x using fw by linarith
  have ey: "(snd (logical_size r) - sprite_height s < sprite_y c \<longrightarrow>
              sprite_y (clamp_to_screen r c) = snd (logical_size r) - sprite_height s) \<and>
           (sprite_y c < 0 \<longrightarrow> sprite_y (clamp_to_screen r c) = 0) \<and>
           (0 \<le> sprite_y c \<and> sprite_y c \<le> snd (logical_size r) - sprite_height s \<longrightarrow>
              sprite_y (clamp_to_screen r c) = sprite_y c)"
    unfolding y using fh by linarith
  show ?thesis
    using c u px py ex ey by blast
qed

theorem clamped_inside_screen_when_fitting_witness:
  "rectangular corridor_map \<and>
   sprite_width corridor_player \<le> fst (logical_size narrow_renderer) \<and>
   sprite_height corridor_player \<le> snd (logical_size narrow_renderer) \<and>
   resolve_collision corridor_map (sprite_x corridor_player) (sprite_y corridor_player)
       (apply_keys (pressed []) corridor_player) = Inr corridor_player \<and>
   fst (logical_size narrow_renderer) - sprite_width corridor_player < sprite_x corridor_player \<and>
   update_game_state corridor_map narrow_renderer (pressed []) corridor_player
     = Inr (corridor_player\<lparr>sprite_x := 24\<rparr>) \<and>
   sprite_x (corridor_player\<lparr>sprite_x := 24\<rparr>)
     = fst (logical_size narrow_renderer) - sprite_width corridor_player"
proof -
  have fw: "sprite_width corridor_player \<le> fst (logical_size narrow_renderer)"
    by (simp add: tick_eval corridor_eval)
  have fh: "sprite_height corridor_player \<le> snd (logical_size narrow_renderer)"
    by (simp add: tick_eval corridor_eval)
  have rc: "resolve_collision corridor_map (sprite_x corridor_player) (sprite_y corridor_player)
       (apply_keys (pressed []) corridor_player) = Inr corridor_player"
    by (simp add: tick_eval corridor_eval)
  have over: "fst (logical_size narrow_renderer) - sprite_width corridor_player < sprite_x corridor_player"
    by (simp add: tick_eval corridor_eval)
  have u: "update_game_state corridor_map narrow_renderer (pressed []) corridor_player
             = Inr (corridor_player\<lparr>sprite_x := 24\<rparr>)"
    by (simp add: tick_eval corridor_eval)
  obtain c s' where c: "resolve_collision corridor_map (sprite_x corridor_player)
        (sprite_y corridor_player) (apply_keys (pressed []) corridor_player) = Inr c"
    and s': "update_game_state corridor_map narrow_renderer (pressed []) corridor_player = Inr s'"
    and edge: "fst (logical_size narrow_renderer) - sprite_width corridor_player < sprite_x c \<longrightarrow>
                 sprite_x s' = fst (logical_size narrow_renderer) - sprite_width corridor_player"
    using clamped_inside_screen_when_fitting[OF rectangular_corridor_map fw fh, of "pressed []"]
    by blast
  from c rc have "c = corridor_player" by simp
  moreover from s' u have "s' = corridor_player\<lparr>sprite_x := 24\<rparr>" by simp
  ultimately have "sprite_x (corridor_player\<lparr>sprite_x := 24\<rparr>)
     = fst (logical_size narrow_renderer) - sprite_width corridor_player"
    using edge over by blast
  then show ?thesis
    using rectangular_corridor_map fw fh rc over u by blast
qed

text \<open>
  C7 as stated fails for a sprite larger than the logical screen: the demo screen is 256
  wide, a sprite 300 wide at \<open>x = 20\<close> ends the tick at \<open>x = 0\<close>, not at
  \<open>logical_width - width\<close>, and its box reaches beyond the right edge.
\<close>

theorem oversized_sprite_leaves_screen:
  "update_game_state tilemap renderer (pressed []) wide_sprite = Inr (wide_sprite\<lparr>sprite_x := 0\<rparr>) \<and>
   resolve_collision tilemap (sprite_x wide_sprite) (sprite_y wide_sprite)
       (apply_keys (pressed []) wide_sprite) = Inr wide_sprite \<and>
   fst (logical_size renderer) - sprite_width wide_sprite < sprite_x wide_sprite \<and>
   sprite_x (wide_sprite\<lparr>sprite_x := 0\<rparr>) \<noteq> fst (logical_size renderer) - sprite_width wide_sprite \<and>
   fst (logical_size renderer)
     < sprite_x (wide_sprite\<lparr>sprite_x := 0\<rparr>) + sprite_width (wide_sprite\<lparr>sprite_x := 0\<rparr>)"
  by (simp add: tick_eval demo_eval wide_sprite_def wide_surface_def)

end
